theory Spec2Isabelle
  imports Main "HOL-Library.Word"
begin

unbundle bit_operations_syntax

section \<open>Data model\<close>

text \<open>
  Go slices of bytes (\<open>net.IP\<close>, \<open>net.IPMask\<close>) are byte lists. Where the source tests a
  slice or a pointer against \<open>nil\<close>, the value is an \<open>option\<close> and \<open>None\<close> is \<open>nil\<close>;
  elsewhere a \<open>nil\<close> slice and an empty one are both the empty list.
  \<open>time.Duration\<close> is a signed count of nanoseconds; no arithmetic that could overflow
  is done on it in the code below, so it is an \<open>int\<close>.
\<close>

type_synonym byte = "8 word"
type_synonym IP = "byte list"
type_synonym IPMask = "byte list"
type_synonym Duration = int

record IPNet =
  IP :: IP
  Mask :: IPMask

record AddrConf =
  IPNet :: IPNet
  PreferredLifetime :: Duration
  ValidLifetime :: Duration

record NetConf =
  Addresses :: "AddrConf list"
  DNSServers :: "IP list"
  DNSSearchList :: "string list"
  Routers :: "IP list"
  NTPServers :: "IP list"

text \<open>\<open>rfc1035label.Labels\<close>: the decoded domain-search option.\<close>

record Labels =
  Labels :: "string list"

subsection \<open>Errors\<close>

text \<open>
  Errors that come from outside the code (the operating system's sockets and interface
  table, the message builders) are \<open>oserror\<close> values; the one the code's behaviour
  depends on is the deadline error of a read or write whose deadline has passed.
\<close>

datatype oserror = DeadlineExceeded | OtherError string

text \<open>
  Every error the code itself creates is one constructor, named by its place:
  \<^item> \<open>NoIANA\<close>: \<open>errors.New("no option IA NA found")\<close>;
  \<^item> \<open>IPAddrNull\<close>: \<open>errors.New("ip address is null (0.0.0.0)")\<close>;
  \<^item> \<open>NoNetmask\<close>: \<open>errors.New("no netmask option in response packet")\<close>;
  \<^item> \<open>NetmaskNull\<close>: \<open>errors.New("netmask extracted from OptSubnetMask options is null")\<close>;
  \<^item> \<open>DNSSearchEmpty\<close>: \<open>errors.New("dns search list is empty")\<close>;
  \<^item> \<open>IfUpTimedOut ifname\<close>: \<open>fmt.Errorf("timed out while waiting for %s to come up", ifname)\<close>;
  \<^item> \<open>NotUDPAddr T\<close>: \<open>fmt.Errorf("could not convert to net.UDPAddr, got %T instead", addr)\<close>;
  \<^item> \<open>NotIPv4 ip\<close>: \<open>fmt.Errorf("'%s' is not a valid IPv4 address", uaddr.IP)\<close>;
  \<^item> \<open>InvalidLocalAddress err\<close>: \<open>fmt.Errorf("Invalid local address: %s", err)\<close>;
  \<^item> \<open>InvalidRemoteAddress err\<close>: \<open>fmt.Errorf("Invalid remote address: %s", err)\<close>;
  \<^item> \<open>ListenFailed err\<close>: \<open>fmt.Errorf("failed to listen on UDP: %v", err)\<close>;
  \<^item> \<open>SendFailed err\<close>: \<open>fmt.Errorf("failed to send DHCP packet: %v", err)\<close>;
  \<^item> \<open>ReceiveFailed err\<close>: \<open>fmt.Errorf("failed to receive DHCP response: %v", err)\<close>;
  \<^item> \<open>Passed err\<close>: an outside error returned unchanged (\<open>return nil, err\<close>).
\<close>

datatype error =
    NoIANA
  | IPAddrNull
  | NoNetmask
  | NetmaskNull
  | DNSSearchEmpty
  | IfUpTimedOut string
  | Passed oserror
  | NotUDPAddr string
  | NotIPv4 "8 word list"
  | InvalidLocalAddress error
  | InvalidRemoteAddress error
  | ListenFailed oserror
  | SendFailed oserror
  | ReceiveFailed oserror

text \<open>
  The source has no error types, only messages. \<open>kind\<close> is the classification of
  section 7 of the specification: a required option that is absent, a required field
  that is absent or zero, an option that is present but empty or invalid, a deadline
  that passed. An error that wraps or passes on the deadline error is a \<open>Timeout\<close>, one
  that wraps another outside error is a \<open>Transport\<close> error. The section has no kind of
  its own for an address that is not a UDP address of IPv4; it counts as an invalid
  value here.
\<close>

datatype error_kind =
  Timeout | MissingOption | MissingField | InvalidValue | Unsupported | Transport | ParseError

fun oserror_kind :: "oserror \<Rightarrow> error_kind" where
  "oserror_kind DeadlineExceeded = Timeout"
| "oserror_kind (OtherError _) = Transport"

fun kind :: "error \<Rightarrow> error_kind" where
  "kind NoIANA = MissingOption"
| "kind IPAddrNull = MissingField"
| "kind NoNetmask = MissingOption"
| "kind NetmaskNull = InvalidValue"
| "kind DNSSearchEmpty = InvalidValue"
| "kind (IfUpTimedOut _) = Timeout"
| "kind (Passed e) = oserror_kind e"
| "kind (NotUDPAddr _) = InvalidValue"
| "kind (NotIPv4 _) = InvalidValue"
| "kind (InvalidLocalAddress _) = InvalidValue"
| "kind (InvalidRemoteAddress _) = InvalidValue"
| "kind (ListenFailed _) = Transport"
| "kind (SendFailed e) = oserror_kind e"
| "kind (ReceiveFailed e) = oserror_kind e"

subsection \<open>Messages\<close>

text \<open>
  The DHCPv4 and DHCPv6 messages are decoded by the codec packages; the code only reads
  the header fields \<open>OpCode\<close>, \<open>TransactionID\<close> (four bytes, compared as a whole) and
  \<open>YourIPAddr\<close>, and the results of option accessors. A message is the record of those
  fields and of what the accessors return: \<open>MessageType\<close> is \<open>MessageTypeNone\<close> when the
  option is absent, \<open>SubnetMask\<close> and \<open>DomainSearch\<close> are \<open>nil\<close> when theirs is.
\<close>

datatype OpcodeType = OpcodeBootRequest | OpcodeBootReply | OpcodeOther nat

datatype MessageType =
    MessageTypeNone | MessageTypeDiscover | MessageTypeOffer | MessageTypeRequest
  | MessageTypeDecline | MessageTypeAck | MessageTypeNak | MessageTypeRelease
  | MessageTypeInform

record DHCPv4 =
  OpCode :: OpcodeType
  TransactionID :: "32 word"
  YourIPAddr :: "IP option"
  MessageType :: MessageType
  SubnetMask :: "IPMask option"
  LeaseTimeOption :: "Duration option"
  DNS :: "IP list"
  DomainSearch :: "Labels option"
  Router :: "IP list"
  NTPServersv4 :: "IP list"

record OptIAAddress =
  IPv6Addr :: IP
  IAPreferredLifetime :: Duration
  IAValidLifetime :: Duration

record OptIANA =
  IANAAddresses :: "OptIAAddress list"

record Messagev6 =
  OneIANA :: "OptIANA option"
  DNSv6 :: "IP list"
  DomainSearchList :: "Labels option"
  NTPServersv6 :: "IP list"

definition IPAddressLeaseTime :: "DHCPv4 \<Rightarrow> Duration \<Rightarrow> Duration" where
  \<comment> \<open>Modelled from the spec: the codec's accessor \<open>IPAddressLeaseTime(def)\<close> is not among
      the sources; it yields the address-lease-time option's value, and \<open>def\<close> when the
      option is absent.\<close>
  "IPAddressLeaseTime d def = (case LeaseTimeOption d of None \<Rightarrow> def | Some v \<Rightarrow> v)"

section \<open>Functions of Go's \<open>net\<close> package used by the code\<close>

definition IPv4zero :: IP where
  "IPv4zero = [0, 0, 0, 0, 0, 0, 0, 0, 0, 0, 0xff, 0xff, 0, 0, 0, 0]"

definition v4InV6Prefix :: "byte list" where
  "v4InV6Prefix = [0, 0, 0, 0, 0, 0, 0, 0, 0, 0, 0xff, 0xff]"

definition IP_Equal :: "IP \<Rightarrow> IP \<Rightarrow> bool" where
  \<comment> \<open>\<open>net.IP.Equal\<close>: an IPv4 address and its 16-byte form are the same address.\<close>
  "IP_Equal ip x =
     (if length ip = length x then ip = x
      else if length ip = 4 \<and> length x = 16 then take 12 x = v4InV6Prefix \<and> ip = drop 12 x
      else if length ip = 16 \<and> length x = 4 then take 12 ip = v4InV6Prefix \<and> drop 12 ip = x
      else False)"

text \<open>
  \<open>net.simpleMaskLength\<close> counts the leading ones of a byte by shifting it left while
  its top bit is set. The loop ends, since such a shift makes the byte smaller.
\<close>

lemma high_bit_ge: "v AND 0x80 \<noteq> 0 \<Longrightarrow> 128 \<le> unat (v::byte)"
proof -
  assume a: "v AND 0x80 \<noteq> 0"
  have "(0x80::byte) = 2 ^ 7" by simp
  with a have "v AND 2 ^ 7 \<noteq> 0" by metis
  then have "bit v 7" by (simp only: and_exp_eq_0_iff_not_bit) simp
  then have "bit (unat v) 7" by (simp add: bit_unsigned_iff)
  then have "odd (unat v div 2 ^ 7)" unfolding bit_iff_odd .
  then have "unat v div 2 ^ 7 \<noteq> 0" by (metis even_zero)
  then show ?thesis by (simp add: div_eq_0_iff)
qed

lemma shift_high_bit_less: "v AND 0x80 \<noteq> 0 \<Longrightarrow> unat (push_bit 1 v) < unat (v::byte)"
proof -
  assume "v AND 0x80 \<noteq> 0"
  then have ge: "128 \<le> unat v" by (rule high_bit_ge)
  have lt: "unat v < 256" using unsigned_less [of v, where 'a = nat] by simp
  have "unat (push_bit 1 v) = (unat v * 2) mod 256"
    by (simp add: unat_word_ariths)
  also have "\<dots> = (256 + (unat v * 2 - 256)) mod 256" using ge by simp
  also have "\<dots> = (unat v * 2 - 256) mod 256" by (simp only: mod_add_self1)
  also have "\<dots> = unat v * 2 - 256" using lt by simp
  also have "\<dots> < unat v" using ge lt by simp
  finally show ?thesis .
qed

function leading_ones :: "int \<Rightarrow> byte \<Rightarrow> int \<times> byte" where
  \<comment> \<open>\<open>for v&0x80 != 0 { n++; v <<= 1 }\<close>, returning the final \<open>n\<close> and \<open>v\<close>\<close>
  "leading_ones n v =
     (if v AND 0x80 \<noteq> 0 then leading_ones (n + 1) (push_bit 1 v) else (n, v))"
  by pat_completeness auto
termination
  by (relation "measure (\<lambda>(n, v). unat v)") (auto dest: shift_high_bit_less)

declare leading_ones.simps [simp del]

fun simpleMaskLength_from :: "int \<Rightarrow> byte list \<Rightarrow> int" where
  \<comment> \<open>the loop of \<open>net.simpleMaskLength\<close> with the count so far: whole 0xff bytes, then the
      leading ones of the first other byte, whose rest and all later bytes must be zero\<close>
  "simpleMaskLength_from n [] = n"
| "simpleMaskLength_from n (v # rest) =
     (if v = 0xff then simpleMaskLength_from (n + 8) rest
      else (case leading_ones n v of (n', v') \<Rightarrow>
              if v' \<noteq> 0 then - 1
              else if list_ex (\<lambda>b. b \<noteq> 0) rest then - 1
              else n'))"

definition simpleMaskLength :: "IPMask \<Rightarrow> int" where
  "simpleMaskLength m = simpleMaskLength_from 0 m"

definition Size :: "IPMask \<Rightarrow> int \<times> int" where
  \<comment> \<open>\<open>net.IPMask.Size\<close>: the number of leading ones and the number of bits, or \<open>(0, 0)\<close>
      when the mask is not a run of ones followed by zeros\<close>
  "Size m =
     (let ones = simpleMaskLength m; bits = int (length m) * 8
      in if ones = - 1 then (0, 0) else (ones, bits))"

fun CIDRMask_bytes :: "nat \<Rightarrow> nat \<Rightarrow> byte list" where
  "CIDRMask_bytes 0 n = []"
| "CIDRMask_bytes (Suc l) n =
     (if n \<ge> 8 then 0xff # CIDRMask_bytes l (n - 8)
      else NOT (drop_bit n 0xff) # CIDRMask_bytes l 0)"

definition CIDRMask :: "int \<Rightarrow> int \<Rightarrow> IPMask" where
  \<comment> \<open>\<open>net.CIDRMask\<close>; the \<open>nil\<close> result is the empty list\<close>
  "CIDRMask ones bits =
     (if bits \<noteq> 32 \<and> bits \<noteq> 128 then []
      else if ones < 0 \<or> ones > bits then []
      else CIDRMask_bytes (nat (bits div 8)) (nat ones))"

section \<open>Configuration extraction\<close>

text \<open>
  Both functions return Go's pair \<open>(*NetConf, error)\<close>: the first component is \<open>None\<close>
  for a \<open>nil\<close> pointer, the second is \<open>None\<close> for a \<open>nil\<close> error.
\<close>

definition NetConf_zero :: NetConf where
  \<comment> \<open>\<open>NetConf{}\<close>\<close>
  "NetConf_zero =
     \<lparr>Addresses = [], DNSServers = [], DNSSearchList = [], Routers = [], NTPServers = []\<rparr>"

definition AddrConf_of_iaaddr :: "OptIAAddress \<Rightarrow> AddrConf" where
  "AddrConf_of_iaaddr iaaddr =
     \<lparr>IPNet = \<lparr>IP = IPv6Addr iaaddr, Mask = CIDRMask 128 128\<rparr>,
      PreferredLifetime = IAPreferredLifetime iaaddr,
      ValidLifetime = IAValidLifetime iaaddr\<rparr>"

fun append_iaaddrs :: "NetConf \<Rightarrow> OptIAAddress list \<Rightarrow> NetConf" where
  \<comment> \<open>\<open>for _, iaaddr := range ... { netconf.Addresses = append(netconf.Addresses, ...) }\<close>\<close>
  "append_iaaddrs netconf [] = netconf"
| "append_iaaddrs netconf (iaaddr # rest) =
     append_iaaddrs (netconf\<lparr>Addresses := Addresses netconf @ [AddrConf_of_iaaddr iaaddr]\<rparr>) rest"

definition GetNetConfFromPacketv6 :: "Messagev6 \<Rightarrow> NetConf option \<times> error option" where
  "GetNetConfFromPacketv6 d =
     (case OneIANA d of
        None \<Rightarrow> (None, Some NoIANA)
      | Some iana \<Rightarrow>
          let netconf = NetConf_zero;
              netconf = append_iaaddrs netconf (IANAAddresses iana);
              netconf = netconf\<lparr>DNSServers := DNSv6 d\<rparr>;
              netconf = (case DomainSearchList d of
                           None \<Rightarrow> netconf
                         | Some domains \<Rightarrow> netconf\<lparr>DNSSearchList := Labels domains\<rparr>);
              netconf = netconf\<lparr>NTPServers := NTPServersv6 d\<rparr>
          in (Some netconf, None))"

definition GetNetConfFromPacketv4 :: "DHCPv4 \<Rightarrow> NetConf option \<times> error option" where
  "GetNetConfFromPacketv4 d =
     (case YourIPAddr d of
        None \<Rightarrow> (None, Some IPAddrNull)
      | Some ipAddr \<Rightarrow>
          if IP_Equal ipAddr IPv4zero then (None, Some IPAddrNull)
          else
            let netconf = NetConf_zero in
            (case SubnetMask d of
               None \<Rightarrow> (None, Some NoNetmask)
             | Some netmask \<Rightarrow>
                 let ones = fst (Size netmask) in
                 if ones = 0 then (None, Some NetmaskNull)
                 else
                   let leaseTime = IPAddressLeaseTime d 0;
                       netconf = netconf\<lparr>Addresses := Addresses netconf @
                          [\<lparr>IPNet = \<lparr>IP = ipAddr, Mask = netmask\<rparr>,
                            PreferredLifetime = 0,
                            ValidLifetime = leaseTime\<rparr>]\<rparr>;
                       netconf = netconf\<lparr>DNSServers := DNS d\<rparr>
                   in
                   (case DomainSearch d of
                      None \<Rightarrow>
                        let netconf = netconf\<lparr>Routers := Router d\<rparr>;
                            netconf = netconf\<lparr>NTPServers := NTPServersv4 d\<rparr>
                        in (Some netconf, None)
                    | Some dnsSearchList \<Rightarrow>
                        if length (Labels dnsSearchList) = 0 then (None, Some DNSSearchEmpty)
                        else
                          let netconf = netconf\<lparr>DNSSearchList := Labels dnsSearchList\<rparr>;
                              netconf = netconf\<lparr>Routers := Router d\<rparr>;
                              netconf = netconf\<lparr>NTPServers := NTPServersv4 d\<rparr>
                          in (Some netconf, None))))"

section \<open>Waiting for an interface\<close>

text \<open>
  \<open>net.Interface\<close> with the fields the code reads; \<open>net.Flags\<close> is a \<open>uint\<close> and
  \<open>net.FlagUp\<close> its lowest bit.
\<close>

record Interface =
  Index :: int
  Name :: string
  Flags :: "64 word"

definition FlagUp :: "64 word" where
  "FlagUp = 1"

definition Millisecond :: Duration where
  "Millisecond = 1000000"

text \<open>
  The world \<open>IfUp\<close> runs in: the monotonic clock \<open>now\<close> (nanoseconds); \<open>latency\<close>, the
  time that passes while the clock is read once; \<open>interfaces\<close>, what
  \<open>net.InterfaceByName\<close> returns for a name at a given time; and \<open>slept\<close>, the durations
  of the \<open>time.Sleep\<close> calls made so far. Sleeping advances the clock by the duration
  asked for.
\<close>

record world =
  now :: int
  latency :: nat
  interfaces :: "int \<Rightarrow> string \<Rightarrow> oserror + Interface"
  slept :: "Duration list"

definition Since :: "int \<Rightarrow> world \<Rightarrow> Duration" where
  \<comment> \<open>the value \<open>time.Since(start)\<close> reads\<close>
  "Since start w = now w - start"

definition tick :: "world \<Rightarrow> world" where
  \<comment> \<open>the world after one reading of the clock\<close>
  "tick w = w\<lparr>now := now w + int (latency w)\<rparr>"

definition InterfaceByName :: "world \<Rightarrow> string \<Rightarrow> oserror + Interface" where
  "InterfaceByName w ifname = interfaces w (now w) ifname"

definition Sleep :: "Duration \<Rightarrow> world \<Rightarrow> world" where
  "Sleep d w = w\<lparr>now := now w + max 0 d, slept := slept w @ [d]\<rparr>"

function IfUp_loop ::
  "string \<Rightarrow> Duration \<Rightarrow> int \<Rightarrow> world \<Rightarrow> (Interface option \<times> error option) \<times> world" where
  \<comment> \<open>\<open>for time.Since(start) < timeout { ... }\<close> and the return after it\<close>
  "IfUp_loop ifname timeout start w =
     (if Since start w < timeout then
        (case InterfaceByName (tick w) ifname of
           Inl err \<Rightarrow> ((None, Some (Passed err)), tick w)
         | Inr iface \<Rightarrow>
             if Flags iface AND FlagUp \<noteq> 0 then ((Some iface, None), tick w)
             else IfUp_loop ifname timeout start (Sleep (100 * Millisecond) (tick w)))
      else ((None, Some (IfUpTimedOut ifname)), tick w))"
  by pat_completeness auto
termination
  by (relation "measure (\<lambda>(ifname, timeout, start, w). nat (start + timeout - now w))")
     (auto simp: Since_def Sleep_def tick_def Millisecond_def)

declare IfUp_loop.simps [simp del]

definition IfUp ::
  "string \<Rightarrow> Duration \<Rightarrow> world \<Rightarrow> (Interface option \<times> error option) \<times> world" where
  \<comment> \<open>\<open>start := time.Now()\<close>, then the loop\<close>
  "IfUp ifname timeout w = IfUp_loop ifname timeout (now w) (tick w)"

section \<open>The DHCPv4 exchange\<close>

subsection \<open>Addresses\<close>

record UDPAddr =
  UDP_IP :: IP
  Port :: int

text \<open>\<open>net.Addr\<close> is an interface: a \<open>*net.UDPAddr\<close>, or a value of another type (named).\<close>

datatype Addr = AddrUDP UDPAddr | AddrOther string

record Client =
  ReadTimeout :: Duration
  WriteTimeout :: Duration
  RemoteAddr :: "Addr option"
  LocalAddr :: "Addr option"

definition MaxUDPReceivedPacketSize :: nat where
  "MaxUDPReceivedPacketSize = 8192"

definition ClientPort :: int where
  "ClientPort = 68"

definition ServerPort :: int where
  "ServerPort = 67"

definition IPv4bcast :: IP where
  "IPv4bcast = [0, 0, 0, 0, 0, 0, 0, 0, 0, 0, 0xff, 0xff, 0xff, 0xff, 0xff, 0xff]"

definition To4 :: "IP \<Rightarrow> IP option" where
  \<comment> \<open>\<open>net.IP.To4\<close>: the 4-byte form of an IPv4 address, \<open>nil\<close> for any other address\<close>
  "To4 ip =
     (if length ip = 4 then Some ip
      else if length ip = 16 \<and> take 10 ip = replicate 10 0 \<and> ip ! 10 = 0xff \<and> ip ! 11 = 0xff
      then Some (drop 12 ip)
      else None)"

text \<open>
  The helpers below return Go's pair of a value and an error, of which exactly one is
  set; they are modelled with a sum type, \<open>Inl\<close> for the error.
\<close>

definition toUDPAddr :: "Addr option \<Rightarrow> UDPAddr \<Rightarrow> error + UDPAddr" where
  "toUDPAddr addr defaultAddr =
     (case (case addr of
              None \<Rightarrow> Inr defaultAddr
            | Some (AddrUDP a) \<Rightarrow> Inr a
            | Some (AddrOther T) \<Rightarrow> Inl (NotUDPAddr T)) of
        Inl e \<Rightarrow> Inl e
      | Inr uaddr \<Rightarrow>
          if To4 (UDP_IP uaddr) = None then Inl (NotIPv4 (UDP_IP uaddr))
          else Inr uaddr)"

definition getLocalUDPAddr :: "Client \<Rightarrow> error + UDPAddr" where
  "getLocalUDPAddr c =
     (case toUDPAddr (LocalAddr c) \<lparr>UDP_IP = IPv4zero, Port = ClientPort\<rparr> of
        Inl err \<Rightarrow> Inl (InvalidLocalAddress err)
      | Inr laddr \<Rightarrow> Inr laddr)"

definition getRemoteUDPAddr :: "Client \<Rightarrow> error + UDPAddr" where
  "getRemoteUDPAddr c =
     (case toUDPAddr (RemoteAddr c) \<lparr>UDP_IP = IPv4bcast, Port = ServerPort\<rparr> of
        Inl err \<Rightarrow> Inl (InvalidRemoteAddress err)
      | Inr raddr \<Rightarrow> Inr raddr)"

subsection \<open>The transport\<close>

text \<open>
  A UDP connection is modelled by what its calls return, in the order they are made:
  \<open>set_write_deadline\<close>, \<open>write_to\<close> and \<open>set_read_deadline\<close> list the outcomes of the
  successive calls of \<open>SetWriteDeadline\<close>, \<open>WriteTo\<close> and \<open>SetReadDeadline\<close> (\<open>None\<close> is
  success, and a call beyond the list succeeds); \<open>reads\<close> lists the outcomes of the
  successive calls of \<open>ReadFromUDP\<close>, a datagram or an error. Only finitely many datagrams
  arrive before a read deadline, so a read beyond the list finds no datagram and fails
  with the deadline error. \<open>sent\<close> collects what was written, and the two deadline fields
  hold the timeout last armed (the deadline is that long after the call).
\<close>

datatype read_event = Datagram "byte list" | ReadError oserror

record conn =
  set_write_deadline :: "oserror option list"
  write_to :: "oserror option list"
  set_read_deadline :: "oserror option list"
  reads :: "read_event list"
  sent :: "(byte list \<times> UDPAddr) list"
  write_deadline :: "Duration option"
  read_deadline :: "Duration option"

definition SetWriteDeadline :: "Duration \<Rightarrow> conn \<Rightarrow> oserror option \<times> conn" where
  "SetWriteDeadline t c =
     (case set_write_deadline c of
        [] \<Rightarrow> (None, c\<lparr>write_deadline := Some t\<rparr>)
      | None # rest \<Rightarrow> (None, c\<lparr>set_write_deadline := rest, write_deadline := Some t\<rparr>)
      | Some e # rest \<Rightarrow> (Some e, c\<lparr>set_write_deadline := rest\<rparr>))"

definition SetReadDeadline :: "Duration \<Rightarrow> conn \<Rightarrow> oserror option \<times> conn" where
  "SetReadDeadline t c =
     (case set_read_deadline c of
        [] \<Rightarrow> (None, c\<lparr>read_deadline := Some t\<rparr>)
      | None # rest \<Rightarrow> (None, c\<lparr>set_read_deadline := rest, read_deadline := Some t\<rparr>)
      | Some e # rest \<Rightarrow> (Some e, c\<lparr>set_read_deadline := rest\<rparr>))"

definition WriteTo :: "byte list \<Rightarrow> UDPAddr \<Rightarrow> conn \<Rightarrow> oserror option \<times> conn" where
  "WriteTo b raddr c =
     (case write_to c of
        [] \<Rightarrow> (None, c\<lparr>sent := sent c @ [(b, raddr)]\<rparr>)
      | None # rest \<Rightarrow> (None, c\<lparr>write_to := rest, sent := sent c @ [(b, raddr)]\<rparr>)
      | Some e # rest \<Rightarrow> (Some e, c\<lparr>write_to := rest\<rparr>))"

text \<open>
  The codec and the message builders are outside the code: \<open>FromBytes\<close> parses a
  datagram or fails, \<open>ToBytes\<close> serialises, the two builders make the Discover and the
  Request or fail, and \<open>ListenUDP\<close> opens the connection on a port or fails.
\<close>

record env =
  FromBytes :: "byte list \<Rightarrow> string + DHCPv4"
  ToBytes :: "DHCPv4 \<Rightarrow> byte list"
  NewDiscoveryForInterface :: "string \<Rightarrow> (DHCPv4 \<Rightarrow> DHCPv4) list \<Rightarrow> oserror + DHCPv4"
  NewRequestFromOffer :: "DHCPv4 \<Rightarrow> (DHCPv4 \<Rightarrow> DHCPv4) list \<Rightarrow> oserror + DHCPv4"
  ListenUDP :: "UDPAddr \<Rightarrow> oserror + conn"

subsection \<open>Sending a packet and waiting for its reply\<close>

fun receive ::
  "env \<Rightarrow> DHCPv4 \<Rightarrow> MessageType \<Rightarrow> read_event list \<Rightarrow> (error + DHCPv4) \<times> read_event list" where
  \<comment> \<open>the \<open>for { ... }\<close> loop of \<open>sendReceive\<close> over the outcomes of the reads still to
      come; it returns the outcomes it has not consumed\<close>
  "receive E packet messageType [] = (Inl (ReceiveFailed DeadlineExceeded), [])"
| "receive E packet messageType (ReadError err # rest) = (Inl (ReceiveFailed err), rest)"
| "receive E packet messageType (Datagram buf # rest) =
     (case FromBytes E (take MaxUDPReceivedPacketSize buf) of
        Inl err \<Rightarrow> receive E packet messageType rest
      | Inr response \<Rightarrow>
          if TransactionID response \<noteq> TransactionID packet then
            receive E packet messageType rest
          else if OpCode response \<noteq> OpcodeBootReply then
            receive E packet messageType rest
          else if messageType \<noteq> MessageTypeNone \<and> MessageType response \<noteq> messageType then
            receive E packet messageType rest
          else (Inr response, rest))"

definition sendReceive ::
  "env \<Rightarrow> Client \<Rightarrow> conn \<Rightarrow> DHCPv4 \<Rightarrow> UDPAddr \<Rightarrow> MessageType \<Rightarrow> (error + DHCPv4) \<times> conn" where
  "sendReceive E c cn packet raddr messageType =
     (case SetWriteDeadline (WriteTimeout c) cn of
        (Some err, cn1) \<Rightarrow> (Inl (Passed err), cn1)
      | (None, cn1) \<Rightarrow>
     (case WriteTo (ToBytes E packet) raddr cn1 of
        (Some err, cn2) \<Rightarrow> (Inl (SendFailed err), cn2)
      | (None, cn2) \<Rightarrow>
     (case SetReadDeadline (ReadTimeout c) cn2 of
        (Some err, cn3) \<Rightarrow> (Inl (Passed err), cn3)
      | (None, cn3) \<Rightarrow>
          (case receive E packet messageType (reads cn3) of
             (r, rest) \<Rightarrow> (r, cn3\<lparr>reads := rest\<rparr>)))))"

subsection \<open>The exchange\<close>

text \<open>
  \<open>Exchange\<close> returns Go's pair of the conversation and the error (\<open>None\<close> for \<open>nil\<close>);
  a \<open>nil\<close> conversation is the empty list.
\<close>

definition Exchange ::
  "env \<Rightarrow> Client \<Rightarrow> string \<Rightarrow> (DHCPv4 \<Rightarrow> DHCPv4) list \<Rightarrow> DHCPv4 list \<times> error option" where
  "Exchange E c ifname modifiers =
     (let conversation = [] in
      case getRemoteUDPAddr c of
        Inl err \<Rightarrow> ([], Some err)
      | Inr raddr \<Rightarrow>
     (case getLocalUDPAddr c of
        Inl err \<Rightarrow> ([], Some err)
      | Inr laddr \<Rightarrow>
     (case ListenUDP E \<lparr>UDP_IP = IPv4zero, Port = Port laddr\<rparr> of
        Inl err \<Rightarrow> (conversation, Some (ListenFailed err))
      | Inr cn \<Rightarrow>
     (case NewDiscoveryForInterface E ifname modifiers of
        Inl err \<Rightarrow> (conversation, Some (Passed err))
      | Inr discover \<Rightarrow>
          let conversation = conversation @ [discover] in
     (case sendReceive E c cn discover raddr MessageTypeOffer of
        (Inl err, cn') \<Rightarrow> (conversation, Some err)
      | (Inr offer, cn') \<Rightarrow>
          let conversation = conversation @ [offer] in
     (case NewRequestFromOffer E offer modifiers of
        Inl err \<Rightarrow> (conversation, Some (Passed err))
      | Inr request \<Rightarrow>
          let conversation = conversation @ [request] in
     (case sendReceive E c cn' request raddr MessageTypeAck of
        (Inl err, cn'') \<Rightarrow> (conversation, Some err)
      | (Inr ack, cn'') \<Rightarrow>
          let conversation = conversation @ [ack] in
          (conversation, None))))))))"

text \<open>
  The test the receive loop applies to a parsed reply, as one predicate: the expected
  transaction identifier, the reply opcode and, unless the expected message type is the
  wildcard \<open>MessageTypeNone\<close>, the expected message type.
\<close>

definition matches :: "DHCPv4 \<Rightarrow> MessageType \<Rightarrow> DHCPv4 \<Rightarrow> bool" where
  "matches packet messageType response =
     (TransactionID response = TransactionID packet \<and> OpCode response = OpcodeBootReply
      \<and> (messageType = MessageTypeNone \<or> MessageType response = messageType))"

definition discarded :: "env \<Rightarrow> DHCPv4 \<Rightarrow> MessageType \<Rightarrow> byte list \<Rightarrow> bool" where
  \<comment> \<open>a datagram that does not parse, or parses to a reply that fails the test\<close>
  "discarded E packet messageType buf =
     (case FromBytes E (take MaxUDPReceivedPacketSize buf) of
        Inl err \<Rightarrow> True
      | Inr response \<Rightarrow> \<not> matches packet messageType response)"

section \<open>Example inputs\<close>

text \<open>
  The reply of the specification's first testable property: address 192.0.2.50, mask
  255.255.255.0, a lease of 3600 seconds, one router and one DNS server.
\<close>

definition v4_example :: DHCPv4 where
  "v4_example =
     \<lparr>OpCode = OpcodeBootReply, TransactionID = 0x1234, YourIPAddr = Some [192, 0, 2, 50],
      MessageType = MessageTypeAck, SubnetMask = Some [255, 255, 255, 0],
      LeaseTimeOption = Some 3600000000000, DNS = [[8, 8, 8, 8]], DomainSearch = None,
      Router = [[192, 0, 2, 1]], NTPServersv4 = []\<rparr>"

text \<open>The same reply with a domain-search option that holds no label.\<close>

definition v4_empty_search_example :: DHCPv4 where
  "v4_empty_search_example = v4_example\<lparr>DomainSearch := Some \<lparr>Labels = []\<rparr>\<rparr>"

text \<open>A reply with no address at all, and a domain-search option that holds no label.\<close>

definition v4_no_address_example :: DHCPv4 where
  "v4_no_address_example = v4_example\<lparr>YourIPAddr := None, DomainSearch := Some \<lparr>Labels = []\<rparr>\<rparr>"

text \<open>The all-zero address, with every option of the first example present.\<close>

definition v4_zero_address_example :: DHCPv4 where
  "v4_zero_address_example = v4_example\<lparr>YourIPAddr := Some [0, 0, 0, 0]\<rparr>"

text \<open>No subnet mask; and the zero-width mask 0.0.0.0.\<close>

definition v4_no_mask_example :: DHCPv4 where
  "v4_no_mask_example = v4_example\<lparr>SubnetMask := None\<rparr>"

definition v4_zero_mask_example :: DHCPv4 where
  "v4_zero_mask_example = v4_example\<lparr>SubnetMask := Some [0, 0, 0, 0]\<rparr>"

text \<open>
  A DHCPv6 reply whose IA_NA binds two addresses with different lifetimes, and whose
  domain-search option is present and holds no label.
\<close>

definition iana_example :: OptIANA where
  "iana_example =
     \<lparr>IANAAddresses =
        [\<lparr>IPv6Addr = [0x20, 0x01, 0x0d, 0xb8, 0, 0, 0, 0, 0, 0, 0, 0, 0, 0, 0, 1],
          IAPreferredLifetime = 100, IAValidLifetime = 200\<rparr>,
         \<lparr>IPv6Addr = [0x20, 0x01, 0x0d, 0xb8, 0, 0, 0, 0, 0, 0, 0, 0, 0, 0, 0, 2],
          IAPreferredLifetime = 300, IAValidLifetime = 400\<rparr>]\<rparr>"

definition v6_example :: Messagev6 where
  "v6_example =
     \<lparr>OneIANA = Some iana_example, DNSv6 = [], DomainSearchList = Some \<lparr>Labels = []\<rparr>,
      NTPServersv6 = []\<rparr>"

text \<open>The same reply without its IA_NA; and a reply with an empty IA_NA and nothing else.\<close>

definition v6_no_iana_example :: Messagev6 where
  "v6_no_iana_example = v6_example\<lparr>OneIANA := None\<rparr>"

definition v6_bare_example :: Messagev6 where
  "v6_bare_example =
     \<lparr>OneIANA = Some \<lparr>IANAAddresses = []\<rparr>, DNSv6 = [], DomainSearchList = None,
      NTPServersv6 = []\<rparr>"

text \<open>
  A world for \<open>IfUp\<close>: the interface \<open>Ethernet\<close> exists and is up at all times, no other
  interface exists, and reading the clock takes no time.
\<close>

definition up_interface :: Interface where
  "up_interface = \<lparr>Index = 1, Name = ''Ethernet'', Flags = 0x13\<rparr>"

definition up_world :: world where
  "up_world =
     \<lparr>now = 5000, latency = 0,
      interfaces = (\<lambda>t n. if n = ''Ethernet'' then Inr up_interface
                           else Inl (OtherError ''no such network interface'')),
      slept = []\<rparr>"

text \<open>
  An exchange: the four messages of one transaction, a reply of another transaction,
  and a codec that knows the datagrams \<open>[1]\<close> (the offer), \<open>[2]\<close> (the acknowledgement)
  and \<open>[3]\<close> (the foreign reply) and fails to parse any other.
\<close>

definition discover_example :: DHCPv4 where
  "discover_example =
     \<lparr>OpCode = OpcodeBootRequest, TransactionID = 0x1234, YourIPAddr = None,
      MessageType = MessageTypeDiscover, SubnetMask = None, LeaseTimeOption = None,
      DNS = [], DomainSearch = None, Router = [], NTPServersv4 = []\<rparr>"

definition offer_example :: DHCPv4 where
  "offer_example = v4_example\<lparr>MessageType := MessageTypeOffer\<rparr>"

definition request_example :: DHCPv4 where
  "request_example = discover_example\<lparr>MessageType := MessageTypeRequest\<rparr>"

definition foreign_example :: DHCPv4 where
  "foreign_example = v4_example\<lparr>TransactionID := 0x9999\<rparr>"

definition codec_example :: "byte list \<Rightarrow> string + DHCPv4" where
  "codec_example buf =
     (if buf = [1] then Inr offer_example
      else if buf = [2] then Inr v4_example
      else if buf = [3] then Inr foreign_example
      else Inl ''malformed'')"

text \<open>
  The reads of the connection: a malformed datagram, the foreign reply and the offer;
  then the offer again, an acknowledgement of the other transaction and a malformed
  datagram, after which nothing arrives.
\<close>

definition conn_example :: conn where
  "conn_example =
     \<lparr>set_write_deadline = [], write_to = [], set_read_deadline = [],
      reads = [Datagram [9], Datagram [3], Datagram [1],
               Datagram [1], Datagram [3], Datagram [9, 9]],
      sent = [], write_deadline = None, read_deadline = None\<rparr>"

definition env_example :: env where
  "env_example =
     \<lparr>FromBytes = codec_example, ToBytes = (\<lambda>m. [0]),
      NewDiscoveryForInterface = (\<lambda>ifname modifiers. Inr discover_example),
      NewRequestFromOffer = (\<lambda>offer modifiers. Inr request_example),
      ListenUDP = (\<lambda>laddr. Inr conn_example)\<rparr>"

definition client_example :: Client where
  "client_example =
     \<lparr>ReadTimeout = 3000000000, WriteTimeout = 3000000000, RemoteAddr = None,
      LocalAddr = None\<rparr>"

section \<open>Properties of the configuration extraction\<close>

subsection \<open>Auxiliary facts\<close>

lemma append_iaaddrs_map:
  "append_iaaddrs netconf xs = netconf\<lparr>Addresses := Addresses netconf @ map AddrConf_of_iaaddr xs\<rparr>"
  by (induction xs arbitrary: netconf) simp_all

lemma Size_example: "Size [255, 255, 255, 0] = (24, 32)"
  by (simp add: Size_def simpleMaskLength_def leading_ones.simps)

lemma Size_CIDRMask_128: "Size (CIDRMask 128 128) = (128, 128)"
  by (simp add: Size_def simpleMaskLength_def CIDRMask_def eval_nat_numeral)

lemma not_zero_example: "\<not> IP_Equal [192, 0, 2, 50] IPv4zero"
  by (simp add: IP_Equal_def IPv4zero_def v4InV6Prefix_def)

lemma zero_v4_is_zero: "IP_Equal [0, 0, 0, 0] IPv4zero"
  by (simp add: IP_Equal_def IPv4zero_def v4InV6Prefix_def)

lemma v4_success:
  assumes "YourIPAddr d = Some ip" and "\<not> IP_Equal ip IPv4zero"
    and "SubnetMask d = Some m" and "fst (Size m) \<noteq> 0"
    and "DomainSearch d = None \<or> (\<exists>l. DomainSearch d = Some l \<and> Labels l \<noteq> [])"
  shows "GetNetConfFromPacketv4 d =
     (Some \<lparr>Addresses = [\<lparr>IPNet = \<lparr>IP = ip, Mask = m\<rparr>, PreferredLifetime = 0,
                          ValidLifetime = (case LeaseTimeOption d of None \<Rightarrow> 0 | Some L \<Rightarrow> L)\<rparr>],
            DNSServers = DNS d,
            DNSSearchList = (case DomainSearch d of None \<Rightarrow> [] | Some l \<Rightarrow> Labels l),
            Routers = Router d, NTPServers = NTPServersv4 d\<rparr>, None)"
  using assms
  by (auto simp: GetNetConfFromPacketv4_def NetConf_zero_def IPAddressLeaseTime_def Let_def
      split: option.splits)

lemma v4_null_address:
  "YourIPAddr d = None \<or> (\<exists>ip. YourIPAddr d = Some ip \<and> IP_Equal ip IPv4zero)
   \<Longrightarrow> GetNetConfFromPacketv4 d = (None, Some IPAddrNull)"
  by (auto simp: GetNetConfFromPacketv4_def)

lemma v4_no_mask:
  "YourIPAddr d = Some ip \<Longrightarrow> \<not> IP_Equal ip IPv4zero \<Longrightarrow> SubnetMask d = None
   \<Longrightarrow> GetNetConfFromPacketv4 d = (None, Some NoNetmask)"
  by (simp add: GetNetConfFromPacketv4_def)

lemma v4_zero_mask:
  "YourIPAddr d = Some ip \<Longrightarrow> \<not> IP_Equal ip IPv4zero \<Longrightarrow> SubnetMask d = Some m
   \<Longrightarrow> fst (Size m) = 0 \<Longrightarrow> GetNetConfFromPacketv4 d = (None, Some NetmaskNull)"
  by (simp add: GetNetConfFromPacketv4_def)

lemma v4_empty_search:
  "YourIPAddr d = Some ip \<Longrightarrow> \<not> IP_Equal ip IPv4zero \<Longrightarrow> SubnetMask d = Some m
   \<Longrightarrow> fst (Size m) \<noteq> 0 \<Longrightarrow> DomainSearch d = Some l \<Longrightarrow> Labels l = []
   \<Longrightarrow> GetNetConfFromPacketv4 d = (None, Some DNSSearchEmpty)"
  by (simp add: GetNetConfFromPacketv4_def Let_def)

lemma v4_cases:
  "GetNetConfFromPacketv4 d = (None, Some IPAddrNull)
   \<or> GetNetConfFromPacketv4 d = (None, Some NoNetmask)
   \<or> GetNetConfFromPacketv4 d = (None, Some NetmaskNull)
   \<or> GetNetConfFromPacketv4 d = (None, Some DNSSearchEmpty)
   \<or> (\<exists>ip m. YourIPAddr d = Some ip \<and> \<not> IP_Equal ip IPv4zero \<and> SubnetMask d = Some m
         \<and> fst (Size m) \<noteq> 0
         \<and> (DomainSearch d = None \<or> (\<exists>l. DomainSearch d = Some l \<and> Labels l \<noteq> []))
         \<and> GetNetConfFromPacketv4 d =
     (Some \<lparr>Addresses = [\<lparr>IPNet = \<lparr>IP = ip, Mask = m\<rparr>, PreferredLifetime = 0,
                          ValidLifetime = (case LeaseTimeOption d of None \<Rightarrow> 0 | Some L \<Rightarrow> L)\<rparr>],
            DNSServers = DNS d,
            DNSSearchList = (case DomainSearch d of None \<Rightarrow> [] | Some l \<Rightarrow> Labels l),
            Routers = Router d, NTPServers = NTPServersv4 d\<rparr>, None))"
proof (cases "YourIPAddr d")
  case None
  then show ?thesis by (simp add: v4_null_address)
next
  case (Some ip)
  note ip = this
  show ?thesis
  proof (cases "IP_Equal ip IPv4zero")
    case True
    with ip show ?thesis by (simp add: v4_null_address)
  next
    case nz: False
    show ?thesis
    proof (cases "SubnetMask d")
      case None
      with ip nz show ?thesis by (simp add: v4_no_mask)
    next
      case (Some m)
      note m = this
      show ?thesis
      proof (cases "fst (Size m) = 0")
        case True
        with ip nz m show ?thesis by (simp add: v4_zero_mask)
      next
        case mz: False
        show ?thesis
        proof (cases "DomainSearch d = None \<or> (\<exists>l. DomainSearch d = Some l \<and> Labels l \<noteq> [])")
          case True
          from v4_success [OF ip nz m mz True] ip nz m mz True show ?thesis by blast
        next
          case False
          then obtain l where "DomainSearch d = Some l" "Labels l = []" by auto
          with ip nz m mz show ?thesis by (simp add: v4_empty_search)
        qed
      qed
    qed
  qed
qed

lemma v6_no_iana: "OneIANA d = None \<Longrightarrow> GetNetConfFromPacketv6 d = (None, Some NoIANA)"
  by (simp add: GetNetConfFromPacketv6_def)

lemma v6_success:
  "OneIANA d = Some iana \<Longrightarrow>
   GetNetConfFromPacketv6 d =
     (Some \<lparr>Addresses = map (\<lambda>a. \<lparr>IPNet = \<lparr>IP = IPv6Addr a, Mask = CIDRMask 128 128\<rparr>,
                                   PreferredLifetime = IAPreferredLifetime a,
                                   ValidLifetime = IAValidLifetime a\<rparr>) (IANAAddresses iana),
            DNSServers = DNSv6 d,
            DNSSearchList = (case DomainSearchList d of None \<Rightarrow> [] | Some l \<Rightarrow> Labels l),
            Routers = [], NTPServers = NTPServersv6 d\<rparr>, None)"
  by (auto simp: GetNetConfFromPacketv6_def NetConf_zero_def append_iaaddrs_map Let_def
      AddrConf_of_iaaddr_def split: option.splits)

subsection \<open>DHCPv4: the address record\<close>

text \<open>
  The reply of the first example with a domain-search option that holds no label meets
  every condition on the address, the mask and the lease time, and is still rejected.
\<close>

theorem C1_counterexample:
  "YourIPAddr v4_empty_search_example = Some [192, 0, 2, 50]
   \<and> \<not> IP_Equal [192, 0, 2, 50] IPv4zero
   \<and> SubnetMask v4_empty_search_example = Some [255, 255, 255, 0]
   \<and> fst (Size [255, 255, 255, 0]) = 24
   \<and> LeaseTimeOption v4_empty_search_example = Some 3600000000000
   \<and> GetNetConfFromPacketv4 v4_empty_search_example = (None, Some DNSSearchEmpty)"
  by (simp add: v4_empty_search_example_def v4_example_def not_zero_example Size_example
      GetNetConfFromPacketv4_def)

text \<open>
  C1 (as amended). For every DHCPv4 reply whose \<open>YourIPAddr\<close> is present and not the
  zero address, whose subnet mask is present with a non-zero prefix width, and whose
  domain-search option is absent or holds at least one label, the extraction succeeds.
  The \<open>NetConf\<close> it returns has exactly one address record, with the reply's address and
  mask, preferred lifetime 0 and as valid lifetime the value of the lease-time option
  (0 when that option is absent); its routers and DNS servers are what the accessors
  return, and so are its NTP servers and its search list.
\<close>

theorem C1_v4_extraction:
  assumes "YourIPAddr d = Some ip" and "\<not> IP_Equal ip IPv4zero"
    and "SubnetMask d = Some m" and "fst (Size m) \<noteq> 0"
    and "DomainSearch d = None \<or> (\<exists>l. DomainSearch d = Some l \<and> Labels l \<noteq> [])"
  shows "GetNetConfFromPacketv4 d =
     (Some \<lparr>Addresses = [\<lparr>IPNet = \<lparr>IP = ip, Mask = m\<rparr>, PreferredLifetime = 0,
                          ValidLifetime = (case LeaseTimeOption d of None \<Rightarrow> 0 | Some L \<Rightarrow> L)\<rparr>],
            DNSServers = DNS d,
            DNSSearchList = (case DomainSearch d of None \<Rightarrow> [] | Some l \<Rightarrow> Labels l),
            Routers = Router d, NTPServers = NTPServersv4 d\<rparr>, None)"
  using assms by (rule v4_success)

text \<open>The example reply, with its lease-time option and without it.\<close>

theorem C1_v4_extraction_witness:
  "GetNetConfFromPacketv4 v4_example =
     (Some \<lparr>Addresses = [\<lparr>IPNet = \<lparr>IP = [192, 0, 2, 50], Mask = [255, 255, 255, 0]\<rparr>,
                          PreferredLifetime = 0, ValidLifetime = 3600000000000\<rparr>],
            DNSServers = [[8, 8, 8, 8]], DNSSearchList = [],
            Routers = [[192, 0, 2, 1]], NTPServers = []\<rparr>, None)
   \<and> GetNetConfFromPacketv4 (v4_example\<lparr>LeaseTimeOption := None\<rparr>) =
     (Some \<lparr>Addresses = [\<lparr>IPNet = \<lparr>IP = [192, 0, 2, 50], Mask = [255, 255, 255, 0]\<rparr>,
                          PreferredLifetime = 0, ValidLifetime = 0\<rparr>],
            DNSServers = [[8, 8, 8, 8]], DNSSearchList = [],
            Routers = [[192, 0, 2, 1]], NTPServers = []\<rparr>, None)"
proof -
  have nz: "fst (Size [255, 255, 255, 0]) \<noteq> 0" by (simp add: Size_example)
  have a: "GetNetConfFromPacketv4 v4_example = (Some \<lparr>Addresses = [\<lparr>IPNet = \<lparr>IP = [192, 0, 2, 50], Mask = [255, 255, 255, 0]\<rparr>,
                          PreferredLifetime = 0, ValidLifetime = 3600000000000\<rparr>],
            DNSServers = [[8, 8, 8, 8]], DNSSearchList = [],
            Routers = [[192, 0, 2, 1]], NTPServers = []\<rparr>, None)"
    using C1_v4_extraction [of v4_example "[192, 0, 2, 50]" "[255, 255, 255, 0]"] nz not_zero_example
    by (simp add: v4_example_def)
  have b: "GetNetConfFromPacketv4 (v4_example\<lparr>LeaseTimeOption := None\<rparr>) =
     (Some \<lparr>Addresses = [\<lparr>IPNet = \<lparr>IP = [192, 0, 2, 50], Mask = [255, 255, 255, 0]\<rparr>,
                          PreferredLifetime = 0, ValidLifetime = 0\<rparr>],
            DNSServers = [[8, 8, 8, 8]], DNSSearchList = [],
            Routers = [[192, 0, 2, 1]], NTPServers = []\<rparr>, None)"
    using C1_v4_extraction [of "v4_example\<lparr>LeaseTimeOption := None\<rparr>" "[192, 0, 2, 50]" "[255, 255, 255, 0]"]
      nz not_zero_example
    by (simp add: v4_example_def)
  from a b show ?thesis by (rule conjI)
qed

subsection \<open>DHCPv6: one address record per bound address\<close>

text \<open>
  C2. Without an IA_NA option the DHCPv6 extraction fails with the error of kind
  \<open>MissingOption\<close>. With one, it returns a \<open>NetConf\<close> whose address records are the bound
  addresses of the IA_NA in their order: as many records as addresses, the i-th with the
  i-th address, a mask of 128 ones out of 128 bits, and the preferred and valid lifetime
  of the i-th address.
\<close>

theorem C2_v6_addresses:
  "(OneIANA d = None \<longrightarrow>
      GetNetConfFromPacketv6 d = (None, Some NoIANA) \<and> kind NoIANA = MissingOption)
   \<and> (\<forall>iana. OneIANA d = Some iana \<longrightarrow>
        (\<exists>nc. GetNetConfFromPacketv6 d = (Some nc, None)
          \<and> Addresses nc =
               map (\<lambda>a. \<lparr>IPNet = \<lparr>IP = IPv6Addr a, Mask = CIDRMask 128 128\<rparr>,
                         PreferredLifetime = IAPreferredLifetime a,
                         ValidLifetime = IAValidLifetime a\<rparr>) (IANAAddresses iana)
          \<and> length (Addresses nc) = length (IANAAddresses iana)
          \<and> (\<forall>i < length (IANAAddresses iana).
                IP (IPNet (Addresses nc ! i)) = IPv6Addr (IANAAddresses iana ! i)
                \<and> Size (Mask (IPNet (Addresses nc ! i))) = (128, 128)
                \<and> PreferredLifetime (Addresses nc ! i) = IAPreferredLifetime (IANAAddresses iana ! i)
                \<and> ValidLifetime (Addresses nc ! i) = IAValidLifetime (IANAAddresses iana ! i))))"
proof (intro conjI allI impI)
  assume "OneIANA d = None"
  then show "GetNetConfFromPacketv6 d = (None, Some NoIANA)" by (rule v6_no_iana)
next
  show "kind NoIANA = MissingOption" by simp
next
  fix iana
  assume "OneIANA d = Some iana"
  then have "GetNetConfFromPacketv6 d =
     (Some \<lparr>Addresses = map (\<lambda>a. \<lparr>IPNet = \<lparr>IP = IPv6Addr a, Mask = CIDRMask 128 128\<rparr>,
                                   PreferredLifetime = IAPreferredLifetime a,
                                   ValidLifetime = IAValidLifetime a\<rparr>) (IANAAddresses iana),
            DNSServers = DNSv6 d,
            DNSSearchList = (case DomainSearchList d of None \<Rightarrow> [] | Some l \<Rightarrow> Labels l),
            Routers = [], NTPServers = NTPServersv6 d\<rparr>, None)"
    by (rule v6_success)
  then show "\<exists>nc. GetNetConfFromPacketv6 d = (Some nc, None)
          \<and> Addresses nc =
               map (\<lambda>a. \<lparr>IPNet = \<lparr>IP = IPv6Addr a, Mask = CIDRMask 128 128\<rparr>,
                         PreferredLifetime = IAPreferredLifetime a,
                         ValidLifetime = IAValidLifetime a\<rparr>) (IANAAddresses iana)
          \<and> length (Addresses nc) = length (IANAAddresses iana)
          \<and> (\<forall>i < length (IANAAddresses iana).
                IP (IPNet (Addresses nc ! i)) = IPv6Addr (IANAAddresses iana ! i)
                \<and> Size (Mask (IPNet (Addresses nc ! i))) = (128, 128)
                \<and> PreferredLifetime (Addresses nc ! i) = IAPreferredLifetime (IANAAddresses iana ! i)
                \<and> ValidLifetime (Addresses nc ! i) = IAValidLifetime (IANAAddresses iana ! i))"
    by (simp add: Size_CIDRMask_128)
qed

text \<open>A reply without IA_NA, and one that binds two addresses with different lifetimes.\<close>

theorem C2_v6_addresses_witness:
  "GetNetConfFromPacketv6 v6_no_iana_example = (None, Some NoIANA)
   \<and> (\<exists>nc. GetNetConfFromPacketv6 v6_example = (Some nc, None)
        \<and> Addresses nc =
            [\<lparr>IPNet = \<lparr>IP = [0x20, 0x01, 0x0d, 0xb8, 0, 0, 0, 0, 0, 0, 0, 0, 0, 0, 0, 1],
                       Mask = [255, 255, 255, 255, 255, 255, 255, 255, 255, 255, 255, 255, 255, 255, 255, 255]\<rparr>,
              PreferredLifetime = 100, ValidLifetime = 200\<rparr>,
             \<lparr>IPNet = \<lparr>IP = [0x20, 0x01, 0x0d, 0xb8, 0, 0, 0, 0, 0, 0, 0, 0, 0, 0, 0, 2],
                       Mask = [255, 255, 255, 255, 255, 255, 255, 255, 255, 255, 255, 255, 255, 255, 255, 255]\<rparr>,
              PreferredLifetime = 300, ValidLifetime = 400\<rparr>])"
proof -
  have m: "CIDRMask 128 128 = [255, 255, 255, 255, 255, 255, 255, 255, 255, 255, 255, 255, 255, 255, 255, 255]"
    by (simp add: CIDRMask_def eval_nat_numeral)
  have a: "GetNetConfFromPacketv6 v6_no_iana_example = (None, Some NoIANA)"
    using C2_v6_addresses [of v6_no_iana_example]
    by (simp add: v6_no_iana_example_def v6_example_def)
  have "OneIANA v6_example = Some iana_example" by (simp add: v6_example_def)
  with C2_v6_addresses [of v6_example]
  obtain nc where "GetNetConfFromPacketv6 v6_example = (Some nc, None)"
    and "Addresses nc =
               map (\<lambda>a. \<lparr>IPNet = \<lparr>IP = IPv6Addr a, Mask = CIDRMask 128 128\<rparr>,
                         PreferredLifetime = IAPreferredLifetime a,
                         ValidLifetime = IAValidLifetime a\<rparr>) (IANAAddresses iana_example)"
    by blast
  then have b: "\<exists>nc. GetNetConfFromPacketv6 v6_example = (Some nc, None)
        \<and> Addresses nc =
            [\<lparr>IPNet = \<lparr>IP = [0x20, 0x01, 0x0d, 0xb8, 0, 0, 0, 0, 0, 0, 0, 0, 0, 0, 0, 1],
                       Mask = [255, 255, 255, 255, 255, 255, 255, 255, 255, 255, 255, 255, 255, 255, 255, 255]\<rparr>,
              PreferredLifetime = 100, ValidLifetime = 200\<rparr>,
             \<lparr>IPNet = \<lparr>IP = [0x20, 0x01, 0x0d, 0xb8, 0, 0, 0, 0, 0, 0, 0, 0, 0, 0, 0, 2],
                       Mask = [255, 255, 255, 255, 255, 255, 255, 255, 255, 255, 255, 255, 255, 255, 255, 255]\<rparr>,
              PreferredLifetime = 300, ValidLifetime = 400\<rparr>]"
    by (simp add: iana_example_def m)
  from a b show ?thesis by (rule conjI)
qed

subsection \<open>The domain-search option\<close>

text \<open>
  A DHCPv4 reply without an address and with a domain-search option that holds no label
  fails with the error of the address check, whose kind is \<open>MissingField\<close>; a DHCPv6
  reply with such an option and no IA_NA is rejected.
\<close>

theorem C3_counterexample:
  "DomainSearch v4_no_address_example = Some \<lparr>Labels = []\<rparr>
   \<and> GetNetConfFromPacketv4 v4_no_address_example = (None, Some IPAddrNull)
   \<and> kind IPAddrNull = MissingField
   \<and> DomainSearchList v6_no_iana_example = Some \<lparr>Labels = []\<rparr>
   \<and> GetNetConfFromPacketv6 v6_no_iana_example = (None, Some NoIANA)"
  by (simp add: v4_no_address_example_def v4_example_def GetNetConfFromPacketv4_def
      v6_no_iana_example_def v6_example_def GetNetConfFromPacketv6_def)

text \<open>
  C3 (as amended). A DHCPv4 reply whose domain-search option is present and holds no
  label is always rejected, and when it passes the checks of the address and the mask
  the error is the one of the domain-search check, of kind \<open>InvalidValue\<close>. A DHCPv4
  reply without the option is never rejected by that check, has an empty search list
  whenever a \<open>NetConf\<close> is returned, and is accepted when it passes the checks of the
  address and the mask. A DHCPv6 reply whose domain-search option is absent, or present
  without a label, is rejected only when it has no IA_NA, and is otherwise accepted with
  an empty search list.
\<close>

theorem C3_domain_search:
  "(\<forall>l. DomainSearch d = Some l \<and> Labels l = [] \<longrightarrow>
       (\<exists>e. GetNetConfFromPacketv4 d = (None, Some e))
       \<and> (\<forall>ip m. YourIPAddr d = Some ip \<and> \<not> IP_Equal ip IPv4zero
                  \<and> SubnetMask d = Some m \<and> fst (Size m) \<noteq> 0
             \<longrightarrow> GetNetConfFromPacketv4 d = (None, Some DNSSearchEmpty)
                 \<and> kind DNSSearchEmpty = InvalidValue))
   \<and> (DomainSearch d = None \<longrightarrow>
         snd (GetNetConfFromPacketv4 d) \<noteq> Some DNSSearchEmpty
         \<and> (\<forall>nc. fst (GetNetConfFromPacketv4 d) = Some nc \<longrightarrow> DNSSearchList nc = [])
         \<and> (\<forall>ip m. YourIPAddr d = Some ip \<and> \<not> IP_Equal ip IPv4zero
                    \<and> SubnetMask d = Some m \<and> fst (Size m) \<noteq> 0
               \<longrightarrow> (\<exists>nc. GetNetConfFromPacketv4 d = (Some nc, None) \<and> DNSSearchList nc = [])))
   \<and> (DomainSearchList d6 = None \<or> (\<exists>l. DomainSearchList d6 = Some l \<and> Labels l = []) \<longrightarrow>
         (OneIANA d6 = None \<longrightarrow> GetNetConfFromPacketv6 d6 = (None, Some NoIANA))
         \<and> (\<forall>iana. OneIANA d6 = Some iana \<longrightarrow>
               (\<exists>nc. GetNetConfFromPacketv6 d6 = (Some nc, None) \<and> DNSSearchList nc = [])))"
proof (intro conjI allI impI)
  fix l assume "DomainSearch d = Some l \<and> Labels l = []"
  then show "\<exists>e. GetNetConfFromPacketv4 d = (None, Some e)"
    using v4_cases [of d] by auto
next
  fix l ip m
  assume "DomainSearch d = Some l \<and> Labels l = []"
    and "YourIPAddr d = Some ip \<and> \<not> IP_Equal ip IPv4zero \<and> SubnetMask d = Some m \<and> fst (Size m) \<noteq> 0"
  then show "GetNetConfFromPacketv4 d = (None, Some DNSSearchEmpty)"
    by (simp add: v4_empty_search)
next
  show "kind DNSSearchEmpty = InvalidValue" by simp
next
  assume n: "DomainSearch d = None"
  then show "snd (GetNetConfFromPacketv4 d) \<noteq> Some DNSSearchEmpty"
    by (auto simp: GetNetConfFromPacketv4_def Let_def split: option.splits)
  fix nc assume "fst (GetNetConfFromPacketv4 d) = Some nc"
  with n show "DNSSearchList nc = []"
    using v4_cases [of d] by auto
next
  fix ip m
  assume "DomainSearch d = None"
    and "YourIPAddr d = Some ip \<and> \<not> IP_Equal ip IPv4zero \<and> SubnetMask d = Some m \<and> fst (Size m) \<noteq> 0"
  then show "\<exists>nc. GetNetConfFromPacketv4 d = (Some nc, None) \<and> DNSSearchList nc = []"
    by (simp add: v4_success)
next
  assume "OneIANA d6 = None"
  then show "GetNetConfFromPacketv6 d6 = (None, Some NoIANA)" by (rule v6_no_iana)
next
  fix iana
  assume "DomainSearchList d6 = None \<or> (\<exists>l. DomainSearchList d6 = Some l \<and> Labels l = [])"
    and "OneIANA d6 = Some iana"
  then show "\<exists>nc. GetNetConfFromPacketv6 d6 = (Some nc, None) \<and> DNSSearchList nc = []"
    by (auto simp: v6_success)
qed

text \<open>
  The DHCPv4 example with an empty and with no domain-search option, the DHCPv6 example
  with an empty one, and the DHCPv6 reply with none.
\<close>

theorem C3_domain_search_witness:
  "GetNetConfFromPacketv4 v4_empty_search_example = (None, Some DNSSearchEmpty)
   \<and> kind DNSSearchEmpty = InvalidValue
   \<and> (\<exists>nc. GetNetConfFromPacketv4 v4_example = (Some nc, None) \<and> DNSSearchList nc = [])
   \<and> (\<exists>nc. GetNetConfFromPacketv6 v6_example = (Some nc, None) \<and> DNSSearchList nc = [])
   \<and> (\<exists>nc. GetNetConfFromPacketv6 v6_bare_example = (Some nc, None) \<and> DNSSearchList nc = [])"
proof -
  have nz: "fst (Size [255, 255, 255, 0]) \<noteq> 0" by (simp add: Size_example)
  have a: "GetNetConfFromPacketv4 v4_empty_search_example = (None, Some DNSSearchEmpty)
           \<and> kind DNSSearchEmpty = InvalidValue"
    using C3_domain_search [of v4_empty_search_example v6_example] nz not_zero_example
    by (simp add: v4_empty_search_example_def v4_example_def)
  have b: "\<exists>nc. GetNetConfFromPacketv4 v4_example = (Some nc, None) \<and> DNSSearchList nc = []"
    using C3_domain_search [of v4_example v6_example] nz not_zero_example
    by (simp add: v4_example_def)
  have c: "\<exists>nc. GetNetConfFromPacketv6 v6_example = (Some nc, None) \<and> DNSSearchList nc = []"
    using C3_domain_search [of v4_example v6_example]
    by (simp add: v6_example_def)
  have d: "\<exists>nc. GetNetConfFromPacketv6 v6_bare_example = (Some nc, None) \<and> DNSSearchList nc = []"
    using C3_domain_search [of v4_example v6_bare_example]
    by (simp add: v6_bare_example_def)
  from a b c d show ?thesis by blast
qed

subsection \<open>DHCPv4: the required address and mask\<close>

text \<open>
  C4. A DHCPv4 reply whose \<open>YourIPAddr\<close> is \<open>nil\<close> or equal to the zero address is
  rejected with the error of kind \<open>MissingField\<close> and without a \<open>NetConf\<close>, whatever
  its options are.
\<close>

theorem C4_null_address:
  assumes "YourIPAddr d = None \<or> (\<exists>ip. YourIPAddr d = Some ip \<and> IP_Equal ip IPv4zero)"
  shows "GetNetConfFromPacketv4 d = (None, Some IPAddrNull) \<and> kind IPAddrNull = MissingField"
  using assms by (simp add: v4_null_address)

text \<open>The address 0.0.0.0 with all options of the first example, and no address.\<close>

theorem C4_null_address_witness:
  "IP_Equal [0, 0, 0, 0] IPv4zero
   \<and> GetNetConfFromPacketv4 v4_zero_address_example = (None, Some IPAddrNull)
   \<and> GetNetConfFromPacketv4 v4_no_address_example = (None, Some IPAddrNull)
   \<and> kind IPAddrNull = MissingField"
proof -
  have a: "GetNetConfFromPacketv4 v4_zero_address_example = (None, Some IPAddrNull)"
    using C4_null_address [of v4_zero_address_example] zero_v4_is_zero
    by (simp add: v4_zero_address_example_def v4_example_def)
  have b: "GetNetConfFromPacketv4 v4_no_address_example = (None, Some IPAddrNull)"
    using C4_null_address [of v4_no_address_example]
    by (simp add: v4_no_address_example_def v4_example_def)
  from a b zero_v4_is_zero show ?thesis by simp
qed

text \<open>
  C5. A DHCPv4 reply with an address that is not the zero address is rejected without a
  \<open>NetConf\<close> when it has no subnet mask, with the error of kind \<open>MissingOption\<close>, and
  when its subnet mask has prefix width zero, with the error of kind \<open>InvalidValue\<close>.
\<close>

theorem C5_subnet_mask:
  assumes "YourIPAddr d = Some ip" and "\<not> IP_Equal ip IPv4zero"
  shows "(SubnetMask d = None \<longrightarrow>
            GetNetConfFromPacketv4 d = (None, Some NoNetmask) \<and> kind NoNetmask = MissingOption)
       \<and> (\<forall>m. SubnetMask d = Some m \<and> fst (Size m) = 0 \<longrightarrow>
            GetNetConfFromPacketv4 d = (None, Some NetmaskNull) \<and> kind NetmaskNull = InvalidValue)"
  using assms by (simp add: v4_no_mask v4_zero_mask)

text \<open>The first example without its mask, and with the mask 0.0.0.0.\<close>

theorem C5_subnet_mask_witness:
  "GetNetConfFromPacketv4 v4_no_mask_example = (None, Some NoNetmask)
   \<and> kind NoNetmask = MissingOption
   \<and> fst (Size [0, 0, 0, 0]) = 0
   \<and> GetNetConfFromPacketv4 v4_zero_mask_example = (None, Some NetmaskNull)
   \<and> kind NetmaskNull = InvalidValue"
proof -
  have z: "fst (Size [0, 0, 0, 0]) = 0"
    by (simp add: Size_def simpleMaskLength_def leading_ones.simps)
  have a: "GetNetConfFromPacketv4 v4_no_mask_example = (None, Some NoNetmask)"
    using C5_subnet_mask [of v4_no_mask_example "[192, 0, 2, 50]"] not_zero_example
    by (simp add: v4_no_mask_example_def v4_example_def)
  have b: "GetNetConfFromPacketv4 v4_zero_mask_example = (None, Some NetmaskNull)"
    using C5_subnet_mask [of v4_zero_mask_example "[192, 0, 2, 50]"] not_zero_example z
    by (simp add: v4_zero_mask_example_def v4_example_def)
  from a b z show ?thesis by simp
qed

subsection \<open>All or nothing\<close>

text \<open>
  C8. Each extraction returns either no \<open>NetConf\<close> and an error, or no error and the
  \<open>NetConf\<close> with every field set from the reply: the address records, the DNS servers,
  the search list, the routers (none for DHCPv6) and the NTP servers.
\<close>

theorem C8_atomic:
  "((\<exists>e. GetNetConfFromPacketv4 d = (None, Some e))
    \<or> (\<exists>ip m. YourIPAddr d = Some ip \<and> SubnetMask d = Some m
         \<and> GetNetConfFromPacketv4 d =
             (Some \<lparr>Addresses = [\<lparr>IPNet = \<lparr>IP = ip, Mask = m\<rparr>, PreferredLifetime = 0,
                      ValidLifetime = (case LeaseTimeOption d of None \<Rightarrow> 0 | Some L \<Rightarrow> L)\<rparr>],
                    DNSServers = DNS d,
                    DNSSearchList = (case DomainSearch d of None \<Rightarrow> [] | Some l \<Rightarrow> Labels l),
                    Routers = Router d, NTPServers = NTPServersv4 d\<rparr>, None)))
   \<and> ((\<exists>e. GetNetConfFromPacketv6 d6 = (None, Some e))
      \<or> (\<exists>iana. OneIANA d6 = Some iana
           \<and> GetNetConfFromPacketv6 d6 =
               (Some \<lparr>Addresses = map (\<lambda>a. \<lparr>IPNet = \<lparr>IP = IPv6Addr a, Mask = CIDRMask 128 128\<rparr>,
                                             PreferredLifetime = IAPreferredLifetime a,
                                             ValidLifetime = IAValidLifetime a\<rparr>) (IANAAddresses iana),
                      DNSServers = DNSv6 d6,
                      DNSSearchList = (case DomainSearchList d6 of None \<Rightarrow> [] | Some l \<Rightarrow> Labels l),
                      Routers = [], NTPServers = NTPServersv6 d6\<rparr>, None)))"
proof
  show "(\<exists>e. GetNetConfFromPacketv4 d = (None, Some e))
    \<or> (\<exists>ip m. YourIPAddr d = Some ip \<and> SubnetMask d = Some m
         \<and> GetNetConfFromPacketv4 d =
             (Some \<lparr>Addresses = [\<lparr>IPNet = \<lparr>IP = ip, Mask = m\<rparr>, PreferredLifetime = 0,
                      ValidLifetime = (case LeaseTimeOption d of None \<Rightarrow> 0 | Some L \<Rightarrow> L)\<rparr>],
                    DNSServers = DNS d,
                    DNSSearchList = (case DomainSearch d of None \<Rightarrow> [] | Some l \<Rightarrow> Labels l),
                    Routers = Router d, NTPServers = NTPServersv4 d\<rparr>, None))"
    using v4_cases [of d] by blast
next
  show "(\<exists>e. GetNetConfFromPacketv6 d6 = (None, Some e))
      \<or> (\<exists>iana. OneIANA d6 = Some iana
           \<and> GetNetConfFromPacketv6 d6 =
               (Some \<lparr>Addresses = map (\<lambda>a. \<lparr>IPNet = \<lparr>IP = IPv6Addr a, Mask = CIDRMask 128 128\<rparr>,
                                             PreferredLifetime = IAPreferredLifetime a,
                                             ValidLifetime = IAValidLifetime a\<rparr>) (IANAAddresses iana),
                      DNSServers = DNSv6 d6,
                      DNSSearchList = (case DomainSearchList d6 of None \<Rightarrow> [] | Some l \<Rightarrow> Labels l),
                      Routers = [], NTPServers = NTPServersv6 d6\<rparr>, None))"
    by (cases "OneIANA d6") (simp_all add: v6_no_iana v6_success)
qed

subsection \<open>DHCPv6: the only error\<close>

text \<open>
  C10. The DHCPv6 extraction returns an error exactly when the reply has no IA_NA, and
  then no \<open>NetConf\<close>. With an IA_NA it returns the \<open>NetConf\<close> made of whatever the reply
  holds; for an IA_NA without addresses and no other option, all its fields are empty.
\<close>

theorem C10_v6_error_iff:
  "(snd (GetNetConfFromPacketv6 d) \<noteq> None) = (OneIANA d = None)
   \<and> (fst (GetNetConfFromPacketv6 d) = None) = (OneIANA d = None)
   \<and> (\<forall>iana. OneIANA d = Some iana \<longrightarrow>
         GetNetConfFromPacketv6 d =
           (Some \<lparr>Addresses = map (\<lambda>a. \<lparr>IPNet = \<lparr>IP = IPv6Addr a, Mask = CIDRMask 128 128\<rparr>,
                                         PreferredLifetime = IAPreferredLifetime a,
                                         ValidLifetime = IAValidLifetime a\<rparr>) (IANAAddresses iana),
                  DNSServers = DNSv6 d,
                  DNSSearchList = (case DomainSearchList d of None \<Rightarrow> [] | Some l \<Rightarrow> Labels l),
                  Routers = [], NTPServers = NTPServersv6 d\<rparr>, None))
   \<and> (OneIANA d = Some \<lparr>IANAAddresses = []\<rparr> \<and> DNSv6 d = [] \<and> DomainSearchList d = None
        \<and> NTPServersv6 d = [] \<longrightarrow>
         GetNetConfFromPacketv6 d =
           (Some \<lparr>Addresses = [], DNSServers = [], DNSSearchList = [], Routers = [],
                  NTPServers = []\<rparr>, None))"
proof (cases "OneIANA d")
  case None
  then have "GetNetConfFromPacketv6 d = (None, Some NoIANA)" by (rule v6_no_iana)
  with None show ?thesis by simp
next
  case (Some iana)
  from v6_success [OF Some] Some show ?thesis by simp
qed

text \<open>The reply with an empty IA_NA and nothing else, and a reply without IA_NA.\<close>

theorem C10_v6_error_iff_witness:
  "GetNetConfFromPacketv6 v6_bare_example =
     (Some \<lparr>Addresses = [], DNSServers = [], DNSSearchList = [], Routers = [],
            NTPServers = []\<rparr>, None)
   \<and> snd (GetNetConfFromPacketv6 v6_no_iana_example) \<noteq> None"
  using C10_v6_error_iff [of v6_bare_example] C10_v6_error_iff [of v6_no_iana_example]
  by (simp add: v6_bare_example_def v6_no_iana_example_def v6_example_def)

section \<open>Properties of waiting for an interface\<close>

subsection \<open>Auxiliary facts\<close>

lemma IfUp_first_poll:
  assumes "int (latency w) < timeout"
    and "InterfaceByName (tick (tick w)) ifname = Inr iface"
    and "Flags iface AND FlagUp \<noteq> 0"
  shows "IfUp ifname timeout w = ((Some iface, None), tick (tick w))"
  unfolding IfUp_def using assms
  by (subst IfUp_loop.simps) (simp add: Since_def tick_def)

lemma IfUp_no_time:
  assumes "timeout \<le> int (latency w)"
  shows "IfUp ifname timeout w = ((None, Some (IfUpTimedOut ifname)), tick (tick w))"
  unfolding IfUp_def using assms
  by (subst IfUp_loop.simps) (simp add: Since_def tick_def)

subsection \<open>An interface that is already up\<close>

text \<open>
  With a timeout of zero the loop condition fails before the first poll: the interface
  is there and up, and \<open>IfUp\<close> still returns its timeout error.
\<close>

theorem C9_counterexample:
  "InterfaceByName up_world ''Ethernet'' = Inr up_interface
   \<and> Flags up_interface AND FlagUp = 1
   \<and> fst (IfUp ''Ethernet'' 0 up_world) = (None, Some (IfUpTimedOut ''Ethernet''))"
  using IfUp_no_time [of 0 up_world "''Ethernet''"]
  by (simp add: up_world_def up_interface_def InterfaceByName_def FlagUp_def)

text \<open>
  C9 (as amended). When the lookup of the first poll succeeds with an interface whose
  up flag is set, \<open>IfUp\<close> returns that interface and no error on the first poll, without
  sleeping, for every timeout longer than the time that passes between taking the start
  time and the first test of the loop condition (so for no timeout of zero or less).
  For any other timeout it returns its timeout error without polling.
\<close>

theorem C9_IfUp_already_up:
  assumes "InterfaceByName (tick (tick w)) ifname = Inr iface"
    and "Flags iface AND FlagUp \<noteq> 0"
  shows "(int (latency w) < timeout \<longrightarrow>
            fst (IfUp ifname timeout w) = (Some iface, None)
            \<and> slept (snd (IfUp ifname timeout w)) = slept w
            \<and> now (snd (IfUp ifname timeout w)) = now w + 2 * int (latency w))
       \<and> (timeout \<le> int (latency w) \<longrightarrow>
            fst (IfUp ifname timeout w) = (None, Some (IfUpTimedOut ifname))
            \<and> kind (IfUpTimedOut ifname) = Timeout
            \<and> slept (snd (IfUp ifname timeout w)) = slept w)"
proof (intro conjI impI)
  assume t: "int (latency w) < timeout"
  have r: "IfUp ifname timeout w = ((Some iface, None), tick (tick w))"
    using t assms by (rule IfUp_first_poll)
  from r show "fst (IfUp ifname timeout w) = (Some iface, None)" by simp
  from r show "slept (snd (IfUp ifname timeout w)) = slept w" by (simp add: tick_def)
  from r show "now (snd (IfUp ifname timeout w)) = now w + 2 * int (latency w)"
    by (simp add: tick_def)
next
  assume t: "timeout \<le> int (latency w)"
  have r: "IfUp ifname timeout w = ((None, Some (IfUpTimedOut ifname)), tick (tick w))"
    using t by (rule IfUp_no_time)
  from r show "fst (IfUp ifname timeout w) = (None, Some (IfUpTimedOut ifname))" by simp
  from r show "slept (snd (IfUp ifname timeout w)) = slept w" by (simp add: tick_def)
  show "kind (IfUpTimedOut ifname) = Timeout" by simp
qed

text \<open>The interface that is up, with a timeout of one nanosecond and a timeout of zero.\<close>

theorem C9_IfUp_already_up_witness:
  "fst (IfUp ''Ethernet'' 1 up_world) = (Some up_interface, None)
   \<and> slept (snd (IfUp ''Ethernet'' 1 up_world)) = []
   \<and> now (snd (IfUp ''Ethernet'' 1 up_world)) = 5000
   \<and> fst (IfUp ''Ethernet'' 0 up_world) = (None, Some (IfUpTimedOut ''Ethernet''))"
  using C9_IfUp_already_up [of up_world "''Ethernet''" up_interface 1]
    C9_IfUp_already_up [of up_world "''Ethernet''" up_interface 0]
  by (simp add: up_world_def up_interface_def InterfaceByName_def FlagUp_def tick_def)

section \<open>Properties of the exchange\<close>

subsection \<open>Auxiliary facts\<close>

lemma discarded_iff:
  "discarded E packet messageType buf =
     (case FromBytes E (take MaxUDPReceivedPacketSize buf) of
        Inl err \<Rightarrow> True
      | Inr response \<Rightarrow>
          TransactionID response \<noteq> TransactionID packet
          \<or> OpCode response \<noteq> OpcodeBootReply
          \<or> (messageType \<noteq> MessageTypeNone \<and> MessageType response \<noteq> messageType))"
  by (auto simp: discarded_def matches_def split: sum.splits)

lemma receive_discarded:
  "discarded E packet messageType buf \<Longrightarrow>
   receive E packet messageType (Datagram buf # rest) = receive E packet messageType rest"
  by (auto simp: discarded_iff split: sum.splits)

lemma receive_accepted:
  "FromBytes E (take MaxUDPReceivedPacketSize buf) = Inr response \<Longrightarrow>
   matches packet messageType response \<Longrightarrow>
   receive E packet messageType (Datagram buf # rest) = (Inr response, rest)"
  by (auto simp: matches_def)

lemma receive_skips:
  "\<forall>buf \<in> set bufs. discarded E packet messageType buf \<Longrightarrow>
   receive E packet messageType (map Datagram bufs @ rest) = receive E packet messageType rest"
proof (induction bufs)
  case Nil
  show ?case by simp
next
  case (Cons b bufs)
  then have "discarded E packet messageType b" by simp
  then have "receive E packet messageType (map Datagram (b # bufs) @ rest)
             = receive E packet messageType (map Datagram bufs @ rest)"
    by (simp add: receive_discarded del: receive.simps)
  with Cons show ?case by simp
qed

lemma receive_success:
  "receive E packet messageType evs = (Inr response, rest') \<Longrightarrow>
   matches packet messageType response
   \<and> (\<exists>buf. Datagram buf \<in> set evs \<and> FromBytes E (take MaxUDPReceivedPacketSize buf) = Inr response)"
proof (induction E packet messageType evs rule: receive.induct)
  case (1 E packet messageType)
  then show ?case by simp
next
  case (2 E packet messageType err rest)
  then show ?case by simp
next
  case (3 E packet messageType buf rest)
  show ?case
  proof (cases "discarded E packet messageType buf")
    case True
    with 3 show ?thesis
      by (auto simp: discarded_iff split: sum.splits if_splits)
  next
    case False
    then obtain r where r: "FromBytes E (take MaxUDPReceivedPacketSize buf) = Inr r"
      and m: "matches packet messageType r"
      by (auto simp: discarded_def split: sum.splits)
    from "3.prems" receive_accepted [OF r m] have "response = r" by simp
    with r m show ?thesis by auto
  qed
qed

lemma receive_failure:
  "receive E packet messageType evs = (Inl err, rest') \<Longrightarrow>
   \<exists>e. err = ReceiveFailed e \<and> (ReadError e \<in> set evs \<or> (e = DeadlineExceeded \<and> rest' = []))"
proof (induction E packet messageType evs rule: receive.induct)
  case (1 E packet messageType)
  then show ?case by simp
next
  case (2 E packet messageType err rest)
  then show ?case by auto
next
  case (3 E packet messageType buf rest)
  then show ?case
    by (auto split: sum.splits if_splits)
qed

lemma receive_times_out:
  assumes "\<forall>buf \<in> set bufs. discarded E packet messageType buf"
    and "tail = [] \<or> (\<exists>rest. tail = ReadError DeadlineExceeded # rest)"
  shows "fst (receive E packet messageType (map Datagram bufs @ tail))
         = Inl (ReceiveFailed DeadlineExceeded)"
proof -
  have "receive E packet messageType (map Datagram bufs @ tail)
        = receive E packet messageType tail"
    using assms(1) by (rule receive_skips)
  moreover have "fst (receive E packet messageType tail) = Inl (ReceiveFailed DeadlineExceeded)"
    using assms(2) by auto
  ultimately show ?thesis by simp
qed

lemma sendReceive_times_out:
  assumes "SetWriteDeadline (WriteTimeout c) cn = (None, cn2)"
    and "WriteTo (ToBytes E packet) raddr cn2 = (None, cn3)"
    and "SetReadDeadline (ReadTimeout c) cn3 = (None, cn4)"
    and "reads cn4 = map Datagram bufs @ tail"
    and "\<forall>buf \<in> set bufs. discarded E packet messageType buf"
    and "tail = [] \<or> (\<exists>rest. tail = ReadError DeadlineExceeded # rest)"
  shows "fst (sendReceive E c cn packet raddr messageType) = Inl (ReceiveFailed DeadlineExceeded)"
proof -
  have "fst (receive E packet messageType (reads cn4)) = Inl (ReceiveFailed DeadlineExceeded)"
    using receive_times_out [OF assms(5) assms(6)] assms(4) by simp
  then show ?thesis
    using assms(1-3) by (auto simp: sendReceive_def split: prod.splits)
qed

subsection \<open>No acknowledgement\<close>

text \<open>
  C6. In a run of \<open>Exchange\<close> in which the Discover is built and sent, a matching Offer
  is received, the Request is built and sent, and the read deadline is armed, if every
  datagram read after that is discarded and then the deadline error ends the reading,
  \<open>Exchange\<close> returns the conversation of exactly the Discover, the Offer and the
  Request, in that order, with the error that wraps the deadline error, of kind
  \<open>Timeout\<close>.
\<close>

theorem C6_no_ack_times_out:
  assumes "getRemoteUDPAddr c = Inr raddr" and "getLocalUDPAddr c = Inr laddr"
    and "ListenUDP E \<lparr>UDP_IP = IPv4zero, Port = Port laddr\<rparr> = Inr cn"
    and "NewDiscoveryForInterface E ifname modifiers = Inr discover"
    and "sendReceive E c cn discover raddr MessageTypeOffer = (Inr offer, cn1)"
    and "NewRequestFromOffer E offer modifiers = Inr request"
    and "SetWriteDeadline (WriteTimeout c) cn1 = (None, cn2)"
    and "WriteTo (ToBytes E request) raddr cn2 = (None, cn3)"
    and "SetReadDeadline (ReadTimeout c) cn3 = (None, cn4)"
    and "reads cn4 = map Datagram bufs @ tail"
    and "\<forall>buf \<in> set bufs. discarded E request MessageTypeAck buf"
    and "tail = [] \<or> (\<exists>rest. tail = ReadError DeadlineExceeded # rest)"
  shows "Exchange E c ifname modifiers =
           ([discover, offer, request], Some (ReceiveFailed DeadlineExceeded))
         \<and> kind (ReceiveFailed DeadlineExceeded) = Timeout"
proof -
  have "fst (sendReceive E c cn1 request raddr MessageTypeAck)
        = Inl (ReceiveFailed DeadlineExceeded)"
    using assms(7-12) by (rule sendReceive_times_out)
  then obtain cn5 where
    "sendReceive E c cn1 request raddr MessageTypeAck = (Inl (ReceiveFailed DeadlineExceeded), cn5)"
    by (cases "sendReceive E c cn1 request raddr MessageTypeAck") simp
  with assms(1-6) show ?thesis
    by (simp add: Exchange_def)
qed

text \<open>
  The example exchange: the offer arrives after a malformed datagram and a foreign
  reply; after the request only a repeated offer, the foreign reply and a malformed
  datagram arrive.
\<close>

theorem C6_no_ack_times_out_witness:
  "Exchange env_example client_example ''Ethernet'' [] =
     ([discover_example, offer_example, request_example], Some (ReceiveFailed DeadlineExceeded))
   \<and> kind (ReceiveFailed DeadlineExceeded) = Timeout"
proof -
  let ?raddr = "\<lparr>UDP_IP = IPv4bcast, Port = ServerPort\<rparr>"
  let ?laddr = "\<lparr>UDP_IP = IPv4zero, Port = ClientPort\<rparr>"
  let ?cn1 = "conn_example\<lparr>reads := [Datagram [1], Datagram [3], Datagram [9, 9]],
                sent := [([0], ?raddr)],
                write_deadline := Some 3000000000, read_deadline := Some 3000000000\<rparr>"
  let ?cn3 = "?cn1\<lparr>sent := [([0], ?raddr), ([0], ?raddr)]\<rparr>"
  have r: "getRemoteUDPAddr client_example = Inr ?raddr"
    by (simp add: getRemoteUDPAddr_def toUDPAddr_def client_example_def To4_def IPv4bcast_def
        eval_nat_numeral)
  have l: "getLocalUDPAddr client_example = Inr ?laddr"
    by (simp add: getLocalUDPAddr_def toUDPAddr_def client_example_def To4_def IPv4zero_def
        eval_nat_numeral)
  have li: "ListenUDP env_example \<lparr>UDP_IP = IPv4zero, Port = Port ?laddr\<rparr> = Inr conn_example"
    by (simp add: env_example_def)
  have d: "NewDiscoveryForInterface env_example ''Ethernet'' [] = Inr discover_example"
    by (simp add: env_example_def)
  have o: "sendReceive env_example client_example conn_example discover_example ?raddr
             MessageTypeOffer = (Inr offer_example, ?cn1)"
    by (simp add: sendReceive_def SetWriteDeadline_def WriteTo_def SetReadDeadline_def
        conn_example_def client_example_def env_example_def codec_example_def
        MaxUDPReceivedPacketSize_def offer_example_def foreign_example_def v4_example_def
        discover_example_def)
  have q: "NewRequestFromOffer env_example offer_example [] = Inr request_example"
    by (simp add: env_example_def)
  have w1: "SetWriteDeadline (WriteTimeout client_example) ?cn1 = (None, ?cn1)"
    by (simp add: SetWriteDeadline_def conn_example_def client_example_def)
  have w2: "WriteTo (ToBytes env_example request_example) ?raddr ?cn1 = (None, ?cn3)"
    by (simp add: WriteTo_def conn_example_def env_example_def)
  have w3: "SetReadDeadline (ReadTimeout client_example) ?cn3 = (None, ?cn3)"
    by (simp add: SetReadDeadline_def conn_example_def client_example_def)
  have rd: "reads ?cn3 = map Datagram [[1], [3], [9, 9]] @ []"
    by simp
  have dis: "\<forall>buf \<in> set [[1], [3], [9, 9]].
               discarded env_example request_example MessageTypeAck buf"
    by (simp add: discarded_def matches_def env_example_def codec_example_def
        MaxUDPReceivedPacketSize_def offer_example_def foreign_example_def v4_example_def
        request_example_def discover_example_def)
  have t: "([]::read_event list) = [] \<or> (\<exists>rest. [] = ReadError DeadlineExceeded # rest)"
    by simp
  show ?thesis
    using C6_no_ack_times_out [OF r l li d o q w1 w2 w3 rd dis t] .
qed

subsection \<open>The receive loop\<close>

text \<open>
  C7. The receive loop drops a datagram that does not parse, or that parses to a message
  with another transaction identifier, with an opcode other than the reply opcode or,
  when a message type other than the wildcard is expected, with another message type,
  and goes on with the next read; so it does for any run of such datagrams. A message
  the loop returns was parsed from one of the datagrams read and has the expected
  transaction identifier, the reply opcode and, when a message type is expected, that
  type. An error the loop returns wraps the error of a read (the deadline error when
  nothing more arrives), never the failure of a parse.
\<close>

theorem C7_receive_loop:
  "(((\<exists>perr. FromBytes E (take MaxUDPReceivedPacketSize buf) = Inl perr)
      \<or> (\<exists>r. FromBytes E (take MaxUDPReceivedPacketSize buf) = Inr r
           \<and> (TransactionID r \<noteq> TransactionID packet \<or> OpCode r \<noteq> OpcodeBootReply
               \<or> (messageType \<noteq> MessageTypeNone \<and> MessageType r \<noteq> messageType))))
     \<longrightarrow> receive E packet messageType (Datagram buf # rest) = receive E packet messageType rest)
   \<and> ((\<forall>b \<in> set bufs. discarded E packet messageType b) \<longrightarrow>
         receive E packet messageType (map Datagram bufs @ rest)
         = receive E packet messageType rest)
   \<and> (\<forall>response rest'. receive E packet messageType evs = (Inr response, rest') \<longrightarrow>
         TransactionID response = TransactionID packet \<and> OpCode response = OpcodeBootReply
         \<and> (messageType \<noteq> MessageTypeNone \<longrightarrow> MessageType response = messageType)
         \<and> (\<exists>b. Datagram b \<in> set evs
                \<and> FromBytes E (take MaxUDPReceivedPacketSize b) = Inr response))
   \<and> (\<forall>err rest'. receive E packet messageType evs = (Inl err, rest') \<longrightarrow>
         (\<exists>e. err = ReceiveFailed e \<and> (ReadError e \<in> set evs \<or> e = DeadlineExceeded))
         \<and> kind err \<noteq> ParseError)"
proof (intro conjI allI impI)
  assume "(\<exists>perr. FromBytes E (take MaxUDPReceivedPacketSize buf) = Inl perr)
      \<or> (\<exists>r. FromBytes E (take MaxUDPReceivedPacketSize buf) = Inr r
           \<and> (TransactionID r \<noteq> TransactionID packet \<or> OpCode r \<noteq> OpcodeBootReply
               \<or> (messageType \<noteq> MessageTypeNone \<and> MessageType r \<noteq> messageType)))"
  then have "discarded E packet messageType buf"
    by (auto simp: discarded_iff)
  then show "receive E packet messageType (Datagram buf # rest) = receive E packet messageType rest"
    by (rule receive_discarded)
next
  assume "\<forall>b \<in> set bufs. discarded E packet messageType b"
  then show "receive E packet messageType (map Datagram bufs @ rest)
             = receive E packet messageType rest"
    by (rule receive_skips)
next
  fix response rest'
  assume a: "receive E packet messageType evs = (Inr response, rest')"
  from receive_success [OF a]
  have m: "matches packet messageType response"
    and b: "\<exists>b. Datagram b \<in> set evs \<and> FromBytes E (take MaxUDPReceivedPacketSize b) = Inr response"
    by simp_all
  from m show "TransactionID response = TransactionID packet" by (simp add: matches_def)
  from m show "OpCode response = OpcodeBootReply" by (simp add: matches_def)
  from b show "\<exists>b. Datagram b \<in> set evs \<and> FromBytes E (take MaxUDPReceivedPacketSize b) = Inr response" .
  assume "messageType \<noteq> MessageTypeNone"
  with m show "MessageType response = messageType" by (simp add: matches_def)
next
  fix err rest'
  assume a: "receive E packet messageType evs = (Inl err, rest')"
  from receive_failure [OF a]
  obtain e where e: "err = ReceiveFailed e" "ReadError e \<in> set evs \<or> e = DeadlineExceeded"
    by blast
  then show "\<exists>e. err = ReceiveFailed e \<and> (ReadError e \<in> set evs \<or> e = DeadlineExceeded)"
    by blast
  from e show "kind err \<noteq> ParseError" by (cases e) simp_all
qed

text \<open>
  A malformed datagram and a foreign reply before the offer; and reads that hold nothing
  for the acknowledgement.
\<close>

theorem C7_receive_loop_witness:
  "receive env_example discover_example MessageTypeOffer
      [Datagram [9], Datagram [3], Datagram [1], Datagram [2]]
     = (Inr offer_example, [Datagram [2]])
   \<and> TransactionID offer_example = TransactionID discover_example
   \<and> OpCode offer_example = OpcodeBootReply
   \<and> MessageType offer_example = MessageTypeOffer
   \<and> receive env_example request_example MessageTypeAck [Datagram [9], Datagram [1]]
     = (Inl (ReceiveFailed DeadlineExceeded), [])
   \<and> kind (ReceiveFailed DeadlineExceeded) \<noteq> ParseError"
proof -
  have dis: "\<forall>b \<in> set [[9], [3]]. discarded env_example discover_example MessageTypeOffer b"
    by (simp add: discarded_def matches_def env_example_def codec_example_def
        MaxUDPReceivedPacketSize_def foreign_example_def v4_example_def discover_example_def)
  have skip: "receive env_example discover_example MessageTypeOffer
                (map Datagram [[9], [3]] @ [Datagram [1], Datagram [2]])
              = receive env_example discover_example MessageTypeOffer [Datagram [1], Datagram [2]]"
    using C7_receive_loop [where E = env_example and packet = discover_example
        and messageType = MessageTypeOffer and bufs = "[[9], [3]]"
        and rest = "[Datagram [1], Datagram [2]]"] dis
    by blast
  have acc: "receive env_example discover_example MessageTypeOffer [Datagram [1], Datagram [2]]
             = (Inr offer_example, [Datagram [2]])"
    by (simp add: env_example_def codec_example_def MaxUDPReceivedPacketSize_def
        offer_example_def v4_example_def discover_example_def)
  have a: "receive env_example discover_example MessageTypeOffer
             [Datagram [9], Datagram [3], Datagram [1], Datagram [2]]
           = (Inr offer_example, [Datagram [2]])"
    using skip acc by simp
  have props: "TransactionID offer_example = TransactionID discover_example
               \<and> OpCode offer_example = OpcodeBootReply
               \<and> MessageType offer_example = MessageTypeOffer"
    using C7_receive_loop [where E = env_example and packet = discover_example
        and messageType = MessageTypeOffer
        and evs = "[Datagram [9], Datagram [3], Datagram [1], Datagram [2]]"] a
    by blast
  have f: "receive env_example request_example MessageTypeAck [Datagram [9], Datagram [1]]
           = (Inl (ReceiveFailed DeadlineExceeded), [])"
    by (simp add: env_example_def codec_example_def MaxUDPReceivedPacketSize_def
        offer_example_def v4_example_def request_example_def discover_example_def)
  have k: "kind (ReceiveFailed DeadlineExceeded) \<noteq> ParseError"
    using C7_receive_loop [where E = env_example and packet = request_example
        and messageType = MessageTypeAck and evs = "[Datagram [9], Datagram [1]]"] f
    by blast
  from a props f k show ?thesis by blast
qed

end
